theory Spec2Isabelle
  imports Main "HOL-Library.Multiset"
begin

section \<open>Data model (types/Task.ts)\<close>

text \<open>
  The enum \<open>TaskStatus\<close> has three members. A JavaScript \<open>Date\<close> holds a time value in
  milliseconds since the epoch, or NaN (an "Invalid Date", what \<open>new Date(text)\<close>
  yields for text that is not a date). Optional fields are options. Strings are
  lists of 8-bit characters, read as code units below 256.

  The interface \<open>Task\<close> declares \<open>status: TaskStatus\<close>, but the object a task is at run
  time can hold \<open>undefined\<close> there: \<open>updateTask\<close> spreads the patch over the task, and
  \<open>loadTasks\<close> spreads whatever object the file holds. So the field is an option, with
  \<open>None\<close> for \<open>undefined\<close>.
\<close>

datatype TaskStatus = TODO | IN_PROGRESS | COMPLETED

datatype date = Date int | InvalidDate

record Task =
  taskId :: string
  title :: string
  description :: "string option"
  status :: "TaskStatus option"
  createdAt :: date
  updatedAt :: date
  dueDate :: "date option"

record CreateTaskInput =
  title_c :: string
  description_c :: "string option"
  dueDate_c :: "date option"

text \<open>
  A property of the patch is missing, or holds \<open>undefined\<close>, or holds a value: an
  optional property \<open>p?: T\<close> admits all three, and the spread \<open>...updateData\<close> copies
  a property that holds \<open>undefined\<close>. For \<open>title\<close> and \<open>description\<close> the source
  treats a property holding \<open>undefined\<close> like a missing one (it tests \<open>!= undefined\<close> and
  overrides the spread with \<open>??\<close>), so \<open>None\<close> stands for both.
\<close>

datatype 'a property = Missing | Undefined | Value 'a

record UpdateTaskInput =
  title_u :: "string option"
  description_u :: "string option"
  status_u :: "TaskStatus property"
  dueDate_u :: "date property"


record 'a ApiResponse =
  success :: bool
  message :: string
  data :: "'a option"
  error :: "string option"

record TaskStats =
  total :: nat
  todo :: nat
  inProgress :: nat
  completed :: nat
  overdue :: nat

text \<open>What a \<open>throw\<close> carries: every one of these is an \<open>Error\<close> with a message.\<close>

datatype fs_op = MkdirSync | WriteFileSync | ReadFile | WriteFile | CopyFile

datatype exn = Error string | TypeError string | SyntaxError string | SystemError fs_op

fun error_message :: "exn \<Rightarrow> string" where
  "error_message (Error m) = m"
| "error_message (TypeError m) = m"
| "error_message (SyntaxError m) = m"
| "error_message (SystemError MkdirSync) = ''mkdir failed''"
| "error_message (SystemError WriteFileSync) = ''write failed''"
| "error_message (SystemError ReadFile) = ''read failed''"
| "error_message (SystemError WriteFile) = ''write failed''"
| "error_message (SystemError CopyFile) = ''copyfile failed''"

section \<open>Platform operations the source calls\<close>

text \<open>Relational operators on two \<open>Date\<close> objects compare the time values; with NaN
  on either side every comparison is false.\<close>

fun date_lt :: "date \<Rightarrow> date \<Rightarrow> bool" where
  "date_lt (Date a) (Date b) = (a < b)"
| "date_lt _ _ = False"


text \<open>\<open>String.prototype.trim\<close>: white space and line terminators below code unit 256.\<close>

definition is_ws :: "char \<Rightarrow> bool" where
  "is_ws c = (c \<in> set [CHR 0x09, CHR 0x0A, CHR 0x0B, CHR 0x0C, CHR 0x0D, CHR 0x20, CHR 0xA0])"

definition trim :: "string \<Rightarrow> string" where
  "trim s = rev (dropWhile is_ws (rev (dropWhile is_ws s)))"

text \<open>\<open>substring(a, b)\<close> for \<open>a \<le> b\<close>.\<close>

definition substring :: "nat \<Rightarrow> nat \<Rightarrow> string \<Rightarrow> string" where
  "substring a b s = take (b - a) (drop a s)"

text \<open>\<open>Number.prototype.toString(radix)\<close> on an integer; the source uses radix 36, and
  radix 10 where a number is interpolated into a template.\<close>

definition digit :: "nat \<Rightarrow> char" where
  "digit d = ''0123456789abcdefghijklmnopqrstuvwxyz'' ! d"

function natToString :: "nat \<Rightarrow> nat \<Rightarrow> string" where
  "natToString r n =
     (if r < 2 \<or> n < r then [digit n] else natToString r (n div r) @ [digit (n mod r)])"
  by pat_completeness auto
termination
  by (relation "measure (\<lambda>(r, n). n)") auto

declare natToString.simps [simp del]

definition toString :: "nat \<Rightarrow> int \<Rightarrow> string" where
  "toString r i = (if i < 0 then ''-'' @ natToString r (nat (- i)) else natToString r (nat i))"

text \<open>\<open>Array.prototype.findIndex\<close>: the first index whose element satisfies the
  predicate, \<open>-1\<close> when there is none.\<close>

fun findIndex :: "('a \<Rightarrow> bool) \<Rightarrow> 'a list \<Rightarrow> int" where
  "findIndex P [] = - 1"
| "findIndex P (x # xs) =
     (if P x then 0 else (let i = findIndex P xs in if i = - 1 then - 1 else i + 1))"

text \<open>\<open>splice(i, 1)\<close> at an index within the array.\<close>

definition splice1 :: "nat \<Rightarrow> 'a list \<Rightarrow> 'a list" where
  "splice1 i xs = take i xs @ drop (Suc i) xs"

text \<open>
  \<open>Array.prototype.sort(cmp)\<close>. A comparator result of NaN counts as 0. Where \<open>cmp\<close> is
  a consistent comparator of the elements (equal to itself on each element, its
  "equal", "before" and "after" each transitive, "equal" symmetric) the sort is
  stable, which fixes the result: \<open>sort_by\<close> inserts each element before the first one
  it does not follow. Where \<open>cmp\<close> is not consistent the order is the engine's:
  \<open>engine\<close> is the order the engine gives, a rearrangement of the elements (an
  \<open>engine\<close> that would add or drop an element is no sort, and is not followed).
\<close>

fun insert_by :: "('a \<Rightarrow> 'a \<Rightarrow> int option) \<Rightarrow> 'a \<Rightarrow> 'a list \<Rightarrow> 'a list" where
  "insert_by cmp x [] = [x]"
| "insert_by cmp x (y # ys) =
     (if (case cmp x y of None \<Rightarrow> 0 | Some v \<Rightarrow> v) \<le> 0 then x # y # ys
      else y # insert_by cmp x ys)"

definition sort_by :: "('a \<Rightarrow> 'a \<Rightarrow> int option) \<Rightarrow> 'a list \<Rightarrow> 'a list" where
  "sort_by cmp xs = foldr (insert_by cmp) xs []"

definition sgn_cmp :: "('a \<Rightarrow> 'a \<Rightarrow> int option) \<Rightarrow> 'a \<Rightarrow> 'a \<Rightarrow> int" where
  "sgn_cmp cmp a b = sgn (case cmp a b of None \<Rightarrow> 0 | Some v \<Rightarrow> v)"

definition consistent :: "('a \<Rightarrow> 'a \<Rightarrow> int option) \<Rightarrow> 'a list \<Rightarrow> bool" where
  "consistent cmp xs =
     list_all (\<lambda>a. sgn_cmp cmp a a = 0 \<and>
        list_all (\<lambda>b. (if sgn_cmp cmp a b = 0 then sgn_cmp cmp b a = 0 else True) \<and>
           list_all (\<lambda>c. if sgn_cmp cmp a b = sgn_cmp cmp b c
                          then sgn_cmp cmp a c = sgn_cmp cmp a b else True) xs) xs) xs"

definition Array_sort ::
  "('a list \<Rightarrow> 'a list) \<Rightarrow> ('a \<Rightarrow> 'a \<Rightarrow> int option) \<Rightarrow> 'a list \<Rightarrow> 'a list" where
  "Array_sort engine cmp xs =
     (if consistent cmp xs then sort_by cmp xs
      else if mset (engine xs) = mset xs then engine xs
      else xs)"

text \<open>\<open>getTime()\<close>, with \<open>None\<close> for NaN, and the subtraction of two such numbers.\<close>

fun getTime :: "date \<Rightarrow> int option" where
  "getTime (Date t) = Some t"
| "getTime InvalidDate = None"

fun num_minus :: "int option \<Rightarrow> int option \<Rightarrow> int option" where
  "num_minus (Some a) (Some b) = Some (a - b)"
| "num_minus _ _ = None"

section \<open>The JSON document and the file system\<close>

text \<open>
  \<open>JSON.stringify\<close> turns a \<open>Date\<close> into its ISO-8601 text through \<open>toJSON\<close>, and an
  Invalid Date into \<open>null\<close>; it leaves out a property whose value is \<open>undefined\<close>.
  \<open>JIso t\<close> stands for the ISO text of the time value \<open>t\<close>, which \<open>new Date(text)\<close>
  reads back as \<open>t\<close>.
\<close>

datatype jdate = JIso int | JNull

record JTask =
  j_id :: string
  j_title :: string
  j_description :: "string option"
  j_status :: "TaskStatus option"
  j_createdAt :: jdate
  j_updatedAt :: jdate
  j_dueDate :: "jdate option"

text \<open>
  The text of a file: \<open>Doc js\<close> is the JSON text of an array of task objects, which
  \<open>JSON.parse\<close> reads back as \<open>js\<close>; \<open>Garbage\<close> is text that \<open>JSON.parse\<close> rejects.
\<close>

datatype content = Doc "JTask list" | Garbage

text \<open>
  The data directory: whether it exists, its files by name, and the primitives that
  currently throw. \<open>existsSync\<close> never throws.
\<close>

record fs =
  dirExists :: bool
  files :: "string \<rightharpoonup> content"
  failing :: "fs_op set"

definition TASKS_FILE :: string where
  "TASKS_FILE = ''tasks.json''"

definition existsSync :: "fs \<Rightarrow> string \<Rightarrow> bool" where
  "existsSync f name = (dirExists f \<and> files f name \<noteq> None)"

definition mkdirSync :: "fs \<Rightarrow> (exn + unit) \<times> fs" where
  "mkdirSync f =
     (if MkdirSync \<notin> failing f then (Inr (), f\<lparr>dirExists := True\<rparr>)
      else (Inl (SystemError MkdirSync), f))"

text \<open>A write, a read or a copy throws when the primitive is failing or the
  directory is missing; a read or a copy also when the file is missing. A write that
  throws leaves the file as it was.\<close>

definition writeFileSync :: "string \<Rightarrow> content \<Rightarrow> fs \<Rightarrow> (exn + unit) \<times> fs" where
  "writeFileSync name c f =
     (if WriteFileSync \<notin> failing f \<and> dirExists f
      then (Inr (), f\<lparr>files := (files f)(name \<mapsto> c)\<rparr>)
      else (Inl (SystemError WriteFileSync), f))"

definition writeFile :: "string \<Rightarrow> content \<Rightarrow> fs \<Rightarrow> (exn + unit) \<times> fs" where
  "writeFile name c f =
     (if WriteFile \<notin> failing f \<and> dirExists f
      then (Inr (), f\<lparr>files := (files f)(name \<mapsto> c)\<rparr>)
      else (Inl (SystemError WriteFile), f))"

definition readFile :: "string \<Rightarrow> fs \<Rightarrow> (exn + content) \<times> fs" where
  "readFile name f =
     (if ReadFile \<notin> failing f \<and> dirExists f
      then (case files f name of
              None \<Rightarrow> (Inl (SystemError ReadFile), f)
            | Some c \<Rightarrow> (Inr c, f))
      else (Inl (SystemError ReadFile), f))"

definition copyFile :: "string \<Rightarrow> string \<Rightarrow> fs \<Rightarrow> (exn + unit) \<times> fs" where
  "copyFile src dst f =
     (if CopyFile \<notin> failing f \<and> dirExists f
      then (case files f src of
              None \<Rightarrow> (Inl (SystemError CopyFile), f)
            | Some c \<Rightarrow> (Inr (), f\<lparr>files := (files f)(dst \<mapsto> c)\<rparr>))
      else (Inl (SystemError CopyFile), f))"

definition toJSON :: "date \<Rightarrow> jdate" where
  "toJSON d = (case d of Date t \<Rightarrow> JIso t | InvalidDate \<Rightarrow> JNull)"

definition stringify_task :: "Task \<Rightarrow> JTask" where
  "stringify_task t =
     \<lparr>j_id = taskId t, j_title = title t, j_description = description t,
      j_status = status t, j_createdAt = toJSON (createdAt t),
      j_updatedAt = toJSON (updatedAt t), j_dueDate = map_option toJSON (dueDate t)\<rparr>"

definition JSON_stringify :: "Task list \<Rightarrow> content" where
  "JSON_stringify ts = Doc (map stringify_task ts)"

definition JSON_parse :: "content \<Rightarrow> exn + JTask list" where
  "JSON_parse c = (case c of Doc js \<Rightarrow> Inr js | Garbage \<Rightarrow> Inl (SyntaxError ''Unexpected token''))"

text \<open>\<open>new Date(v)\<close> for a parsed property: the ISO text gives its time value,
  \<open>null\<close> gives the epoch.\<close>

definition new_Date :: "jdate \<Rightarrow> date" where
  "new_Date j = (case j of JIso t \<Rightarrow> Date t | JNull \<Rightarrow> Date 0)"

section \<open>The task store (utils/fileUtils.ts)\<close>

definition ensureDataDirectory :: "fs \<Rightarrow> (exn + unit) \<times> fs" where
  "ensureDataDirectory f = (if \<not> dirExists f then mkdirSync f else (Inr (), f))"

definition ensureTasksFile :: "fs \<Rightarrow> (exn + unit) \<times> fs" where
  "ensureTasksFile f =
     (case ensureDataDirectory f of
        (Inl e, f1) \<Rightarrow> (Inl e, f1)
      | (Inr _, f1) \<Rightarrow>
          if \<not> existsSync f1 TASKS_FILE then writeFileSync TASKS_FILE (Doc []) f1
          else (Inr (), f1))"

text \<open>The callback of \<open>tasksData.map\<close> in \<open>loadTasks\<close>: the parsed object with its
  three date properties replaced.\<close>

definition hydrate :: "JTask \<Rightarrow> Task" where
  "hydrate j =
     \<lparr>taskId = j_id j, title = j_title j, description = j_description j,
      status = j_status j,
      createdAt = new_Date (j_createdAt j),
      updatedAt = new_Date (j_updatedAt j),
      dueDate = (case j_dueDate j of
                   None \<Rightarrow> None
                 | Some JNull \<Rightarrow> None
                 | Some (JIso t) \<Rightarrow> Some (new_Date (JIso t)))\<rparr>"

text \<open>\<open>loadTasks\<close>: every throw inside the \<open>try\<close> ends in \<open>return []\<close>.\<close>

definition loadTasks :: "fs \<Rightarrow> Task list \<times> fs" where
  "loadTasks f =
     (case ensureTasksFile f of
        (Inl e, f1) \<Rightarrow> ([], f1)
      | (Inr _, f1) \<Rightarrow>
          (case readFile TASKS_FILE f1 of
             (Inl e, f2) \<Rightarrow> ([], f2)
           | (Inr text, f2) \<Rightarrow>
               (case JSON_parse text of
                  Inl e \<Rightarrow> ([], f2)
                | Inr tasksData \<Rightarrow> (map hydrate tasksData, f2))))"

text \<open>\<open>saveTasks\<close>: every throw inside the \<open>try\<close> ends in \<open>return false\<close>.\<close>

definition saveTasks :: "Task list \<Rightarrow> fs \<Rightarrow> bool \<times> fs" where
  "saveTasks ts f =
     (case ensureTasksFile f of
        (Inl e, f1) \<Rightarrow> (False, f1)
      | (Inr _, f1) \<Rightarrow>
          (case writeFile TASKS_FILE (JSON_stringify ts) f1 of
             (Inl e, f2) \<Rightarrow> (False, f2)
           | (Inr _, f2) \<Rightarrow> (True, f2)))"

text \<open>
  \<open>backupTasks\<close>. The argument is \<open>new Date().toISOString()\<close>. The name of the backup
  file is written between single quotes in the source, so it is this text as it stands.
\<close>

definition backupTasks :: "string \<Rightarrow> fs \<Rightarrow> bool \<times> fs" where
  "backupTasks isoString f =
     (if \<not> existsSync f TASKS_FILE then (True, f)
      else
        (let timestamp = map (\<lambda>c. if c = CHR '':'' \<or> c = CHR ''.'' then CHR ''-'' else c) isoString;
             backupFile = ''tasks_backup_${timestamp}.json''
         in case copyFile TASKS_FILE backupFile f of
              (Inl e, f1) \<Rightarrow> (False, f1)
            | (Inr _, f1) \<Rightarrow> (True, f1)))"

section \<open>The task service (services/TaskService.ts)\<close>

record TaskService =
  tasks :: "Task list"
  isLoaded :: bool

text \<open>What an operation reads from outside: \<open>Date.now()\<close>, \<open>new Date()\<close> and
  \<open>Math.random().toString(36)\<close>. Every \<open>new Date()\<close> of one call reads the same
  time.\<close>

record env =
  dateNow :: int
  now :: int
  random36 :: string

definition initialize :: "TaskService \<times> fs \<Rightarrow> TaskService \<times> fs" where
  "initialize w =
     (case w of (s, f) \<Rightarrow>
        if \<not> isLoaded s then
          (case loadTasks f of (ts, f1) \<Rightarrow> (\<lparr>tasks = ts, isLoaded = True\<rparr>, f1))
        else (s, f))"

definition generateTaskId :: "env \<Rightarrow> string" where
  "generateTaskId e =
     (let timestamp = toString 36 (dateNow e);
          randomStr = substring 2 5 (random36 e)
      in ''task_'' @ timestamp @ ''_'' @ randomStr)"

text \<open>The \<open>catch\<close> block of an operation: a failure with the operation's message and
  the text of what was thrown.\<close>

definition catch_error :: "string \<Rightarrow> (exn + 'a ApiResponse) \<Rightarrow> 'a ApiResponse" where
  "catch_error msg r =
     (case r of
        Inl e \<Rightarrow> \<lparr>success = False, message = msg, data = None, error = Some (error_message e)\<rparr>
      | Inr x \<Rightarrow> x)"

definition newTask :: "env \<Rightarrow> CreateTaskInput \<Rightarrow> Task" where
  "newTask e input =
     \<lparr>taskId = generateTaskId e,
      title = trim (title_c input),
      description = map_option trim (description_c input),
      status = Some TODO,
      createdAt = Date (now e),
      updatedAt = Date (now e),
      dueDate = dueDate_c input\<rparr>"

definition createTask_try ::
  "env \<Rightarrow> CreateTaskInput \<Rightarrow> TaskService \<times> fs \<Rightarrow> (exn + Task ApiResponse) \<times> TaskService \<times> fs" where
  "createTask_try e input w =
     (case initialize w of (s, f) \<Rightarrow>
        if trim (title_c input) = [] then
          (Inr \<lparr>success = False, message = ''Task title. cannot be empty'', data = None,
                error = Some ''INVALID_TITLE''\<rparr>, s, f)
        else
          (let t = newTask e input;
               s1 = s\<lparr>tasks := tasks s @ [t]\<rparr>
           in case saveTasks (tasks s1) f of (saved, f1) \<Rightarrow>
                if \<not> saved then (Inl (Error ''Failed to save task''), s1, f1)
                else (Inr \<lparr>success = True, message = ''Successfully create task'',
                           data = Some t, error = None\<rparr>, s1, f1)))"

definition createTask ::
  "env \<Rightarrow> CreateTaskInput \<Rightarrow> TaskService \<times> fs \<Rightarrow> Task ApiResponse \<times> TaskService \<times> fs" where
  "createTask e input w =
     (case createTask_try e input w of
        (r, w1) \<Rightarrow> (catch_error ''Error when creating task'' r, w1))"



definition by_createdAt_desc :: "Task \<Rightarrow> Task \<Rightarrow> int option" where
  "by_createdAt_desc a b = num_minus (getTime (createdAt b)) (getTime (createdAt a))"


definition getTaskById ::
  "string \<Rightarrow> TaskService \<times> fs \<Rightarrow> Task ApiResponse \<times> TaskService \<times> fs" where
  "getTaskById i w =
     (case initialize w of (s, f) \<Rightarrow>
        (case find (\<lambda>t. taskId t = i) (tasks s) of
           None \<Rightarrow> (\<lparr>success = False, message = ''Cannot find specified task'', data = None,
                      error = Some ''TASK_NOT_FOUND''\<rparr>, s, f)
         | Some task \<Rightarrow> (\<lparr>success = True, message = ''Successfully got the task'',
                           data = Some task, error = None\<rparr>, s, f)))"

text \<open>
  The object literal of \<open>updateTask\<close>:
  \<open>{ ...currentTask, ...updateData, title: ..., description: ..., updatedAt: new Date() }\<close>.
  The spread of the patch copies every property the patch has, also one that holds
  \<open>undefined\<close>; \<open>title\<close> and \<open>description\<close> are then set again, \<open>status\<close> and \<open>dueDate\<close>
  are not.
\<close>

definition merge_update :: "env \<Rightarrow> Task \<Rightarrow> UpdateTaskInput \<Rightarrow> Task" where
  "merge_update e currentTask updateData =
     \<lparr>taskId = taskId currentTask,
      title = (case title_u updateData of None \<Rightarrow> title currentTask | Some t \<Rightarrow> trim t),
      description = (case description_u updateData of
                       None \<Rightarrow> description currentTask
                     | Some d \<Rightarrow> Some (trim d)),
      status = (case status_u updateData of
                  Missing \<Rightarrow> status currentTask
                | Undefined \<Rightarrow> None
                | Value st \<Rightarrow> Some st),
      createdAt = createdAt currentTask,
      updatedAt = Date (now e),
      dueDate = (case dueDate_u updateData of
                   Missing \<Rightarrow> dueDate currentTask
                 | Undefined \<Rightarrow> None
                 | Value d \<Rightarrow> Some d)\<rparr>"

definition updateTask_try ::
  "env \<Rightarrow> string \<Rightarrow> UpdateTaskInput \<Rightarrow> TaskService \<times> fs
     \<Rightarrow> (exn + Task ApiResponse) \<times> TaskService \<times> fs" where
  "updateTask_try e i updateData w =
     (case initialize w of (s, f) \<Rightarrow>
        (let taskIndex = findIndex (\<lambda>t. taskId t = i) (tasks s) in
         if taskIndex = - 1 then
           (Inr \<lparr>success = False, message = ''Cannot find specified task'', data = None,
                 error = Some ''INVALID_TITLE''\<rparr>, s, f)
         else if (case title_u updateData of None \<Rightarrow> False | Some t \<Rightarrow> trim t = []) then
           (Inr \<lparr>success = False, message = ''Task title cannot be empty'', data = None,
                 error = Some ''INVALID_TITLE''\<rparr>, s, f)
         else
           (let currentTask = tasks s ! nat taskIndex;
                updatedTask = merge_update e currentTask updateData;
                s1 = s\<lparr>tasks := (tasks s)[nat taskIndex := updatedTask]\<rparr>
            in case saveTasks (tasks s1) f of (saved, f1) \<Rightarrow>
                 if \<not> saved then (Inl (Error ''Failed to save task''), s1, f1)
                 else (Inr \<lparr>success = True, message = ''Successfully udpate task'',
                            data = Some updatedTask, error = None\<rparr>, s1, f1))))"

definition updateTask ::
  "env \<Rightarrow> string \<Rightarrow> UpdateTaskInput \<Rightarrow> TaskService \<times> fs
     \<Rightarrow> Task ApiResponse \<times> TaskService \<times> fs" where
  "updateTask e i updateData w =
     (case updateTask_try e i updateData w of
        (r, w1) \<Rightarrow> (catch_error ''Error when updating task'' r, w1))"

definition deleteTask_try ::
  "string \<Rightarrow> TaskService \<times> fs \<Rightarrow> (exn + bool ApiResponse) \<times> TaskService \<times> fs" where
  "deleteTask_try i w =
     (case initialize w of (s, f) \<Rightarrow>
        (let taskIndex = findIndex (\<lambda>t. taskId t = i) (tasks s) in
         if taskIndex = - 1 then
           (Inr \<lparr>success = False, message = ''Cannot find specified task'', data = None,
                 error = Some ''TASK_NOT_FOUND''\<rparr>, s, f)
         else
           (let deletedTask = tasks s ! nat taskIndex;
                s1 = s\<lparr>tasks := splice1 (nat taskIndex) (tasks s)\<rparr>
            in case saveTasks (tasks s1) f of (saved, f1) \<Rightarrow>
                 if \<not> saved then (Inl (Error ''Failed to save task''), s1, f1)
                 else (Inr \<lparr>success = True,
                            message = ''Task '' @ [CHR 0x22] @ title deletedTask @ [CHR 0x22]
                                        @ '' has been deleted'',
                            data = Some True, error = None\<rparr>, s1, f1))))"

definition deleteTask ::
  "string \<Rightarrow> TaskService \<times> fs \<Rightarrow> bool ApiResponse \<times> TaskService \<times> fs" where
  "deleteTask i w =
     (case deleteTask_try i w of
        (r, w1) \<Rightarrow> (catch_error ''Error when deleting task'' r, w1))"

text \<open>
  \<open>updateTaskStatus\<close> has no \<open>try\<close>; its body is \<open>return this.udpateTask(id, { status })\<close>.
  \<open>this_call name\<close> is the call \<open>this[name](id, updateData)\<close>: the class has one
  member taking these arguments, \<open>updateTask\<close>, and none under another spelling, so
  any other name finds \<open>undefined\<close> and the call throws a TypeError.
\<close>

definition this_call ::
  "string \<Rightarrow> env \<Rightarrow> string \<Rightarrow> UpdateTaskInput \<Rightarrow> TaskService \<times> fs
     \<Rightarrow> exn + Task ApiResponse \<times> TaskService \<times> fs" where
  "this_call name e i updateData w =
     (if name = ''updateTask'' then Inr (updateTask e i updateData w)
      else Inl (TypeError (''this.'' @ name @ '' is not a function'')))"

definition updateTaskStatus ::
  "env \<Rightarrow> string \<Rightarrow> TaskStatus \<Rightarrow> TaskService \<times> fs
     \<Rightarrow> exn + Task ApiResponse \<times> TaskService \<times> fs" where
  "updateTaskStatus e i st w =
     this_call ''udpateTask'' e i
       \<lparr>title_u = None, description_u = None, status_u = Value st, dueDate_u = Missing\<rparr> w"

definition isTaskOverdue :: "env \<Rightarrow> Task \<Rightarrow> bool" where
  "isTaskOverdue e task =
     (case dueDate task of
        None \<Rightarrow> False
      | Some d \<Rightarrow> if status task = Some COMPLETED then False else date_lt d (Date (now e)))"

definition getTaskStats ::
  "env \<Rightarrow> TaskService \<times> fs \<Rightarrow> TaskStats ApiResponse \<times> TaskService \<times> fs" where
  "getTaskStats e w =
     (case initialize w of (s, f) \<Rightarrow>
        (let stats = \<lparr>total = length (tasks s),
                      todo = length (filter (\<lambda>t. status t = Some TODO) (tasks s)),
                      inProgress = length (filter (\<lambda>t. status t = Some IN_PROGRESS) (tasks s)),
                      completed = length (filter (\<lambda>t. status t = Some COMPLETED) (tasks s)),
                      overdue = length (filter (isTaskOverdue e) (tasks s))\<rparr>
         in (\<lparr>success = True, message = ''Successfully get task stats'', data = Some stats,
              error = None\<rparr>, s, f)))"

section \<open>The interactive update (cli/commands.ts, handleUpdateTask)\<close>

text \<open>
  \<open>handleUpdateTask\<close> called with no option, as \<open>handleInteractiveUpdate\<close> calls it: it
  reads the task, asks for a title, a description and a status (one of the three
  members, chosen from a list), and assigns each of the three properties of the patch,
  \<open>undefined\<close> where the answer is the task's current value. What it prints is left out.
\<close>

record answers =
  a_title :: string
  a_description :: string
  a_status :: TaskStatus

definition interactive_updateData :: "Task \<Rightarrow> answers \<Rightarrow> UpdateTaskInput" where
  "interactive_updateData currentTask ans =
     \<lparr>title_u = (if a_title ans \<noteq> title currentTask then Some (a_title ans) else None),
      description_u =
        (if a_description ans \<noteq> (case description currentTask of None \<Rightarrow> [] | Some d \<Rightarrow> d)
         then Some (a_description ans) else None),
      status_u =
        (if Some (a_status ans) \<noteq> status currentTask then Value (a_status ans) else Undefined),
      dueDate_u = Missing\<rparr>"

definition handleUpdateTask_interactive ::
  "env \<Rightarrow> string \<Rightarrow> answers \<Rightarrow> TaskService \<times> fs \<Rightarrow> TaskService \<times> fs" where
  "handleUpdateTask_interactive e i ans w =
     (case getTaskById i w of (taskResult, w1) \<Rightarrow>
        (case (if success taskResult then data taskResult else None) of
           None \<Rightarrow> w1
         | Some currentTask \<Rightarrow> snd (updateTask e i (interactive_updateData currentTask ans) w1)))"

section \<open>Vocabulary of the properties\<close>


definition only_status :: "TaskStatus \<Rightarrow> UpdateTaskInput" where
  "only_status st =
     \<lparr>title_u = None, description_u = None, status_u = Value st, dueDate_u = Missing\<rparr>"

fun valid_date :: "date \<Rightarrow> bool" where
  "valid_date (Date t) = True"
| "valid_date InvalidDate = False"

definition valid_dates :: "Task \<Rightarrow> bool" where
  "valid_dates t =
     (valid_date (createdAt t) \<and> valid_date (updatedAt t) \<and>
      (case dueDate t of None \<Rightarrow> True | Some d \<Rightarrow> valid_date d))"

section \<open>Sample states\<close>

definition env0 :: env where
  "env0 = \<lparr>dateNow = 1700000000000, now = 1700000000000, random36 = ''0.4fzyo82mvyr''\<rparr>"

definition sample_task :: "string \<Rightarrow> TaskStatus \<Rightarrow> date option \<Rightarrow> Task" where
  "sample_task i st due =
     \<lparr>taskId = i, title = ''Write report'', description = None, status = Some st,
      createdAt = Date 1600000000000, updatedAt = Date 1600000000000, dueDate = due\<rparr>"

definition loaded :: "Task list \<Rightarrow> TaskService" where
  "loaded ts = \<lparr>tasks = ts, isLoaded = True\<rparr>"

definition disk :: "Task list \<Rightarrow> fs" where
  "disk ts = \<lparr>dirExists = True, files = [TASKS_FILE \<mapsto> JSON_stringify ts], failing = {}\<rparr>"

definition write_protected :: "fs \<Rightarrow> fs" where
  "write_protected f = f\<lparr>failing := {MkdirSync, WriteFileSync, WriteFile, CopyFile}\<rparr>"

definition one_task :: "Task list" where
  "one_task = [sample_task ''a'' TODO None]"


definition three_tasks :: "Task list" where
  "three_tasks =
     [sample_task ''a'' TODO None,
      sample_task ''b'' IN_PROGRESS (Some (Date 1650000000000)),
      sample_task ''c'' COMPLETED (Some (Date 1650000000000))]"



definition sample_answers :: answers where
  "sample_answers = \<lparr>a_title = ''Write the report'', a_description = [], a_status = TODO\<rparr>"

definition sample_input :: CreateTaskInput where
  "sample_input = \<lparr>title_c = '' Buy milk '', description_c = None, dueDate_c = None\<rparr>"

section \<open>Facts about the platform operations\<close>

lemma findIndex_ge: "- 1 \<le> findIndex P xs"
  by (induction xs) (auto simp: Let_def)

lemma findIndex_none: "(findIndex P xs = - 1) = (\<forall>x\<in>set xs. \<not> P x)"
proof (induction xs)
  case Nil
  then show ?case by simp
next
  case (Cons x xs)
  have "- 1 \<le> findIndex P xs" by (rule findIndex_ge)
  with Cons show ?case by (auto simp: Let_def)
qed


text \<open>The index \<open>findIndex\<close> returns is the first position that satisfies the
  predicate.\<close>

lemma findIndex_first:
  "k < length xs \<Longrightarrow> P (xs ! k) \<Longrightarrow> \<forall>j<k. \<not> P (xs ! j) \<Longrightarrow> findIndex P xs = int k"
proof (induction xs arbitrary: k)
  case Nil
  then show ?case by simp
next
  case (Cons x xs)
  show ?case
  proof (cases k)
    case 0
    with Cons.prems show ?thesis by simp
  next
    case (Suc m)
    from Cons.prems Suc have nx: "\<not> P x" by auto
    from Cons.prems Suc have "m < length xs" "P (xs ! m)" "\<forall>j<m. \<not> P (xs ! j)" by auto
    then have "findIndex P xs = int m" by (rule Cons.IH)
    with nx Suc show ?thesis by (simp add: Let_def)
  qed
qed


lemma set_insert_by: "set (insert_by cmp x ys) = insert x (set ys)"
  by (induction ys) auto

lemma length_insert_by: "length (insert_by cmp x ys) = Suc (length ys)"
  by (induction ys) auto

lemma set_sort_by: "set (sort_by cmp xs) = set xs"
  by (induction xs) (simp_all add: sort_by_def set_insert_by)

lemma length_sort_by: "length (sort_by cmp xs) = length xs"
  by (induction xs) (simp_all add: sort_by_def length_insert_by)






text \<open>With valid creation dates the comparator of \<open>getAllTasks\<close> is consistent, so the
  order is the stable one, newest first, and the engine has no say.\<close>

lemma sgn_diff_trans:
  fixes x y z :: int
  shows "sgn (y - x) = sgn (z - y) \<Longrightarrow> sgn (z - x) = sgn (y - x)"
  by (cases "x < y"; cases "y < z"; cases "x = y"; cases "y = z") (simp_all add: sgn_if)

lemma sgn_diff_sym:
  fixes x y :: int
  shows "sgn (y - x) = 0 \<Longrightarrow> sgn (x - y) = 0"
  by (simp add: sgn_if split: if_splits)

lemma sgn_cmp_createdAt:
  "createdAt a = Date x \<Longrightarrow> createdAt b = Date y \<Longrightarrow> sgn_cmp by_createdAt_desc a b = sgn (y - x)"
  by (simp add: sgn_cmp_def by_createdAt_desc_def)

lemma consistent_valid:
  assumes "list_all (\<lambda>t. valid_date (createdAt t)) xs"
  shows "consistent by_createdAt_desc xs"
proof -
  have v: "\<And>t. t \<in> set xs \<Longrightarrow> \<exists>x. createdAt t = Date x"
  proof -
    fix t assume "t \<in> set xs"
    with assms have "valid_date (createdAt t)" by (simp add: list_all_iff)
    then show "\<exists>x. createdAt t = Date x" by (cases "createdAt t") auto
  qed
  have r: "\<And>a. a \<in> set xs \<Longrightarrow> sgn_cmp by_createdAt_desc a a = 0"
  proof -
    fix a assume "a \<in> set xs"
    then obtain x where "createdAt a = Date x" using v by blast
    then show "sgn_cmp by_createdAt_desc a a = 0" by (simp add: sgn_cmp_createdAt)
  qed
  have s: "\<And>a b. a \<in> set xs \<Longrightarrow> b \<in> set xs \<Longrightarrow> sgn_cmp by_createdAt_desc a b = 0
             \<Longrightarrow> sgn_cmp by_createdAt_desc b a = 0"
  proof -
    fix a b assume ma: "a \<in> set xs" and mb: "b \<in> set xs"
      and e: "sgn_cmp by_createdAt_desc a b = 0"
    from v [OF ma] obtain x where cx: "createdAt a = Date x" ..
    from v [OF mb] obtain y where cy: "createdAt b = Date y" ..
    note c = cx cy
    from e have "sgn (y - x) = 0" by (simp add: sgn_cmp_createdAt [OF c])
    then have "sgn (x - y) = 0" by (rule sgn_diff_sym)
    then show "sgn_cmp by_createdAt_desc b a = 0" by (simp add: sgn_cmp_createdAt [OF c(2) c(1)])
  qed
  have t: "\<And>a b c. a \<in> set xs \<Longrightarrow> b \<in> set xs \<Longrightarrow> c \<in> set xs
             \<Longrightarrow> sgn_cmp by_createdAt_desc a b = sgn_cmp by_createdAt_desc b c
             \<Longrightarrow> sgn_cmp by_createdAt_desc a c = sgn_cmp by_createdAt_desc a b"
  proof -
    fix a b c assume ma: "a \<in> set xs" and mb: "b \<in> set xs" and mc: "c \<in> set xs"
      and e: "sgn_cmp by_createdAt_desc a b = sgn_cmp by_createdAt_desc b c"
    from v [OF ma] obtain x where cx: "createdAt a = Date x" ..
    from v [OF mb] obtain y where cy: "createdAt b = Date y" ..
    from v [OF mc] obtain z where cz: "createdAt c = Date z" ..
    note c = cx cy cz
    from e have "sgn (y - x) = sgn (z - y)"
      by (simp only: sgn_cmp_createdAt [OF c(1) c(2)] sgn_cmp_createdAt [OF c(2) c(3)])
    then have "sgn (z - x) = sgn (y - x)" by (rule sgn_diff_trans)
    then show "sgn_cmp by_createdAt_desc a c = sgn_cmp by_createdAt_desc a b"
      by (simp only: sgn_cmp_createdAt [OF c(1) c(2)] sgn_cmp_createdAt [OF c(1) c(3)])
  qed
  show ?thesis
    unfolding consistent_def list_all_iff
  proof (intro ballI conjI)
    fix a assume "a \<in> set xs"
    then show "sgn_cmp by_createdAt_desc a a = 0" by (rule r)
  next
    fix a b assume ma: "a \<in> set xs" and mb: "b \<in> set xs"
    show "if sgn_cmp by_createdAt_desc a b = 0 then sgn_cmp by_createdAt_desc b a = 0 else True"
    proof (cases "sgn_cmp by_createdAt_desc a b = 0")
      case True
      from s [OF ma mb True] True show ?thesis by simp
    next
      case False
      then show ?thesis by simp
    qed
  next
    fix a b c assume ma: "a \<in> set xs" and mb: "b \<in> set xs" and mc: "c \<in> set xs"
    show "if sgn_cmp by_createdAt_desc a b = sgn_cmp by_createdAt_desc b c
          then sgn_cmp by_createdAt_desc a c = sgn_cmp by_createdAt_desc a b else True"
    proof (cases "sgn_cmp by_createdAt_desc a b = sgn_cmp by_createdAt_desc b c")
      case True
      from t [OF ma mb mc True] True show ?thesis by simp
    next
      case False
      then show ?thesis by simp
    qed
  qed
qed

lemma Array_sort_valid:
  "list_all (\<lambda>t. valid_date (createdAt t)) xs \<Longrightarrow>
     Array_sort engine by_createdAt_desc xs = sort_by by_createdAt_desc xs"
  by (simp add: Array_sort_def consistent_valid)

section \<open>Facts about the store\<close>

text \<open>Whether a save succeeds depends on the file system only, not on the tasks.\<close>

lemma saveTasks_indep: "fst (saveTasks ts f) = fst (saveTasks ts' f)"
  by (auto simp: saveTasks_def writeFile_def split: prod.splits sum.splits)

lemma saveTasks_True:
  assumes "fst (saveTasks ts f) = True"
  shows "dirExists (snd (saveTasks ts f))
         \<and> files (snd (saveTasks ts f)) TASKS_FILE = Some (JSON_stringify ts)
         \<and> failing (snd (saveTasks ts f)) = failing f"
  using assms
  by (auto simp: saveTasks_def ensureTasksFile_def ensureDataDirectory_def mkdirSync_def
      writeFileSync_def writeFile_def existsSync_def
      split: prod.splits sum.splits if_splits)

lemma loadTasks_reads:
  assumes "dirExists f" and "files f TASKS_FILE = Some (Doc js)" and "ReadFile \<notin> failing f"
  shows "fst (loadTasks f) = map hydrate js"
  using assms
  by (simp add: loadTasks_def ensureTasksFile_def ensureDataDirectory_def existsSync_def
      readFile_def JSON_parse_def)

lemma saveTasks_disk: "saveTasks ts (disk x) = (True, disk ts)"
  by (simp add: saveTasks_def disk_def ensureTasksFile_def ensureDataDirectory_def
      existsSync_def writeFile_def)

lemma loadTasks_disk: "fst (loadTasks (disk ts)) = map hydrate (map stringify_task ts)"
  by (simp add: loadTasks_def disk_def ensureTasksFile_def ensureDataDirectory_def
      existsSync_def readFile_def JSON_parse_def JSON_stringify_def)

lemma saveTasks_write_protected:
  "saveTasks ts (write_protected (disk x)) = (False, write_protected (disk x))"
  by (simp add: saveTasks_def write_protected_def disk_def ensureTasksFile_def
      ensureDataDirectory_def existsSync_def writeFile_def)

lemma hydrate_stringify: "valid_dates t \<Longrightarrow> hydrate (stringify_task t) = t"
proof -
  assume v: "valid_dates t"
  from v obtain c where c: "createdAt t = Date c"
    by (cases "createdAt t") (auto simp: valid_dates_def)
  from v obtain u where u: "updatedAt t = Date u"
    by (cases "updatedAt t") (auto simp: valid_dates_def)
  show ?thesis
  proof (cases "dueDate t")
    case None
    then show ?thesis
      by (simp add: hydrate_def stringify_task_def c u toJSON_def new_Date_def)
  next
    case (Some dd)
    with v obtain x where "dd = Date x" by (cases dd) (auto simp: valid_dates_def)
    with Some show ?thesis
      by (simp add: hydrate_def stringify_task_def c u toJSON_def new_Date_def)
  qed
qed

lemma map_hydrate_stringify:
  "\<forall>t\<in>set ts. valid_dates t \<Longrightarrow> map hydrate (map stringify_task ts) = ts"
  by (induction ts) (simp_all add: hydrate_stringify)

text \<open>The parts of \<open>backupTasks\<close> that do not depend on the name of the copy: without
  a tasks file nothing is copied and the result is \<open>true\<close>; a copy that throws gives
  \<open>false\<close>.\<close>

lemma backupTasks_no_file:
  "\<not> existsSync f TASKS_FILE \<Longrightarrow> backupTasks isoString f = (True, f)"
  by (simp add: backupTasks_def)

lemma backupTasks_copy_fails:
  "existsSync f TASKS_FILE \<Longrightarrow> CopyFile \<in> failing f \<Longrightarrow> backupTasks isoString f = (False, f)"
  by (simp add: backupTasks_def copyFile_def)

lemma backupTasks_same_name: "backupTasks isoString f = backupTasks isoString' f"
  by (simp add: backupTasks_def)

section \<open>Facts about the service\<close>

lemma initialize_loaded: "isLoaded s \<Longrightarrow> initialize (s, f) = (s, f)"
  by (simp add: initialize_def)


text \<open>\<open>updateTask\<close> with an id that no task has: the collection and the files stay as
  they are, and the result carries the error text \<open>INVALID_TITLE\<close>.\<close>

lemma updateTask_absent:
  assumes "isLoaded s" and "\<forall>t\<in>set (tasks s). taskId t \<noteq> i"
  shows "updateTask e i u (s, f) =
           (\<lparr>success = False, message = ''Cannot find specified task'', data = None,
             error = Some ''INVALID_TITLE''\<rparr>, s, f)"
proof -
  have "findIndex (\<lambda>t. taskId t = i) (tasks s) = - 1"
    using assms(2) by (simp add: findIndex_none)
  then show ?thesis
    using assms(1) by (simp add: updateTask_def updateTask_try_def initialize_def catch_error_def)
qed

lemma getTaskById_absent:
  assumes "isLoaded s" and "\<forall>t\<in>set (tasks s). taskId t \<noteq> i"
  shows "fst (getTaskById i (s, f))
           = \<lparr>success = False, message = ''Cannot find specified task'', data = None,
              error = Some ''TASK_NOT_FOUND''\<rparr>"
proof -
  have "find (\<lambda>t. taskId t = i) (tasks s) = None"
    using assms(2) by (simp add: find_None_iff)
  then show ?thesis using assms(1) by (simp add: getTaskById_def initialize_def)
qed

text \<open>\<open>updateTaskStatus\<close> throws whatever it is given; the same call under the name
  \<open>updateTask\<close> is the update.\<close>

lemma updateTaskStatus_always_throws:
  "updateTaskStatus e i st w = Inl (TypeError ''this.udpateTask is not a function'')"
  by (simp add: updateTaskStatus_def this_call_def)

lemma this_call_updateTask:
  "this_call ''updateTask'' e i u w = Inr (updateTask e i u w)"
  by (simp add: this_call_def)

lemma createTask_save_fails:
  assumes "initialize w = (s, f)" and "trim (title_c input) \<noteq> []"
    and "fst (saveTasks (tasks s @ [newTask e input]) f) = False"
  shows "fst (createTask e input w)
           = \<lparr>success = False, message = ''Error when creating task'', data = None,
              error = Some ''Failed to save task''\<rparr>
         \<and> tasks (fst (snd (createTask e input w))) = tasks s @ [newTask e input]"
  using assms
  by (auto simp: createTask_def createTask_try_def catch_error_def Let_def split: prod.splits)

lemma updateTask_save_fails:
  assumes "initialize w = (s, f)" and "findIndex (\<lambda>t. taskId t = i) (tasks s) = int k"
    and "case title_u u of None \<Rightarrow> True | Some ttl \<Rightarrow> trim ttl \<noteq> []"
    and "fst (saveTasks ((tasks s)[k := merge_update e (tasks s ! k) u]) f) = False"
  shows "fst (updateTask e i u w)
           = \<lparr>success = False, message = ''Error when updating task'', data = None,
              error = Some ''Failed to save task''\<rparr>
         \<and> tasks (fst (snd (updateTask e i u w)))
           = (tasks s)[k := merge_update e (tasks s ! k) u]"
proof -
  have tt: "\<not> (case title_u u of None \<Rightarrow> False | Some t \<Rightarrow> trim t = [])"
    using assms(3) by (simp split: option.splits)
  show ?thesis
    using tt assms(1,2,4)
    by (auto simp: updateTask_def updateTask_try_def catch_error_def Let_def
        split: prod.splits)
qed

lemma deleteTask_save_fails:
  assumes "initialize w = (s, f)" and "findIndex (\<lambda>t. taskId t = i) (tasks s) = int k"
    and "fst (saveTasks (take k (tasks s) @ drop (Suc k) (tasks s)) f) = False"
  shows "fst (deleteTask i w)
           = \<lparr>success = False, message = ''Error when deleting task'', data = None,
              error = Some ''Failed to save task''\<rparr>
         \<and> tasks (fst (snd (deleteTask i w))) = take k (tasks s) @ drop (Suc k) (tasks s)"
  using assms
  by (auto simp: deleteTask_def deleteTask_try_def catch_error_def Let_def splice1_def
      split: prod.splits)







lemma isTaskOverdue_iff:
  "isTaskOverdue e t
     = ((\<exists>x. dueDate t = Some (Date x) \<and> x < now e) \<and> status t \<noteq> Some COMPLETED)"
proof (cases "dueDate t")
  case None
  then show ?thesis by (simp add: isTaskOverdue_def)
next
  case (Some d)
  then show ?thesis by (cases d) (auto simp: isTaskOverdue_def)
qed

text \<open>The total is the three status counts plus the number of tasks whose status is
  \<open>undefined\<close>; where every task has a status it is the three counts.\<close>

lemma status_partition:
  "length ts = length (filter (\<lambda>t. status t = Some TODO) ts)
             + length (filter (\<lambda>t. status t = Some IN_PROGRESS) ts)
             + length (filter (\<lambda>t. status t = Some COMPLETED) ts)
             + length (filter (\<lambda>t. status t = None) ts)"
proof (induction ts)
  case Nil
  then show ?case by simp
next
  case (Cons t ts)
  show ?case
  proof (cases "status t")
    case None
    with Cons show ?thesis by simp
  next
    case (Some st)
    with Cons show ?thesis by (cases st) simp_all
  qed
qed

lemma getTaskStats_total_with_statuses:
  assumes "initialize w = (s, f)" and "list_all (\<lambda>t. status t \<noteq> None) (tasks s)"
  shows "\<exists>st. data (fst (getTaskStats e w)) = Some st
              \<and> total st = todo st + inProgress st + completed st"
proof -
  have "filter (\<lambda>t. status t = None) (tasks s) = []"
    using assms(2) by (auto simp: list_all_iff filter_empty_conv)
  then show ?thesis
    using status_partition [of "tasks s"] by (simp add: getTaskStats_def assms(1) Let_def)
qed


section \<open>The claims\<close>

text \<open>
  C1. \<open>updateTask\<close> with an id that no task of the loaded collection has. The
  collection has the one task \<open>a\<close>; the id asked for is \<open>zzz\<close>. The update fails
  with the message "Cannot find specified task" and leaves the collection alone, but
  the error text it carries is \<open>INVALID_TITLE\<close>, not \<open>TASK_NOT_FOUND\<close>;
  \<open>getTaskById\<close> on the same state and id carries \<open>TASK_NOT_FOUND\<close>.
\<close>

theorem updateTask_absent_id_error_code:
  "fst (updateTask env0 ''zzz'' (only_status COMPLETED) (loaded one_task, disk one_task))
     = \<lparr>success = False, message = ''Cannot find specified task'', data = None,
        error = Some ''INVALID_TITLE''\<rparr>
   \<and> error (fst (updateTask env0 ''zzz'' (only_status COMPLETED)
                   (loaded one_task, disk one_task)))
       \<noteq> Some ''TASK_NOT_FOUND''
   \<and> snd (updateTask env0 ''zzz'' (only_status COMPLETED) (loaded one_task, disk one_task))
       = (loaded one_task, disk one_task)
   \<and> error (fst (getTaskById ''zzz'' (loaded one_task, disk one_task)))
       = Some ''TASK_NOT_FOUND''"
proof -
  have ld: "isLoaded (loaded one_task)"
    by (simp add: loaded_def)
  have ab: "\<forall>t\<in>set (tasks (loaded one_task)). taskId t \<noteq> ''zzz''"
    by (simp add: loaded_def one_task_def sample_task_def)
  show ?thesis
    by (simp add: updateTask_absent [OF ld ab] getTaskById_absent [OF ld ab])
qed

text \<open>
  C2. \<open>updateTaskStatus\<close> on a state whose one task has the id asked for. The call
  throws a TypeError, which nothing catches, where \<open>updateTask\<close> with only the status
  set succeeds on the same state.
\<close>

theorem updateTaskStatus_throws:
  "updateTaskStatus env0 ''a'' COMPLETED (loaded one_task, disk one_task)
     = Inl (TypeError ''this.udpateTask is not a function'')
   \<and> success (fst (updateTask env0 ''a'' (only_status COMPLETED)
                     (loaded one_task, disk one_task))) = True"
  by (simp add: updateTaskStatus_def this_call_def updateTask_def updateTask_try_def
      initialize_def catch_error_def loaded_def one_task_def sample_task_def saveTasks_disk
      only_status_def Let_def)

text \<open>
  C3. \<open>backupTasks\<close> at 2024-01-01T00:00:00.000Z with a tasks file present. The copy
  succeeds and is written under the name \<open>tasks_backup_${timestamp}.json\<close> as it
  stands; no file whose name holds the timestamp appears, and a backup at another time
  gives the same files.
\<close>

theorem backupTasks_file_name:
  "fst (backupTasks ''2024-01-01T00:00:00.000Z'' (disk [])) = True
   \<and> files (snd (backupTasks ''2024-01-01T00:00:00.000Z'' (disk [])))
         ''tasks_backup_${timestamp}.json'' = Some (Doc [])
   \<and> files (snd (backupTasks ''2024-01-01T00:00:00.000Z'' (disk [])))
         ''tasks_backup_2024-01-01T00-00-00-000Z.json'' = None
   \<and> backupTasks ''2024-01-01T00:00:00.000Z'' (disk [])
       = backupTasks ''2025-06-30T12:30:00.000Z'' (disk [])"
  by (simp add: backupTasks_def disk_def existsSync_def copyFile_def TASKS_FILE_def
      JSON_stringify_def)

text \<open>
  C4. When the save of the changed collection returns \<open>false\<close>, each mutating
  operation returns a failure and the collection in memory keeps the change:
  \<open>createTask\<close> (with a title that is not blank) keeps the new task at the end;
  \<open>updateTask\<close> (with \<open>k\<close> the first position of the id, and a title that, when
  given, is not blank) keeps the merged task at \<open>k\<close>; \<open>deleteTask\<close> keeps the
  collection without position \<open>k\<close>. \<open>(s, f)\<close> is the state once \<open>initialize\<close> has run.
\<close>

theorem save_failure_no_rollback:
  "initialize w = (s, f) \<longrightarrow>
     (trim (title_c input) \<noteq> [] \<and> fst (saveTasks (tasks s @ [newTask e input]) f) = False
        \<longrightarrow> success (fst (createTask e input w)) = False
            \<and> tasks (fst (snd (createTask e input w))) = tasks s @ [newTask e input])
   \<and> (k < length (tasks s) \<and> taskId (tasks s ! k) = i \<and> (\<forall>j<k. taskId (tasks s ! j) \<noteq> i)
        \<longrightarrow>
          ((case title_u u of None \<Rightarrow> True | Some ttl \<Rightarrow> trim ttl \<noteq> [])
             \<and> fst (saveTasks ((tasks s)[k := merge_update e (tasks s ! k) u]) f) = False
           \<longrightarrow> success (fst (updateTask e i u w)) = False
               \<and> tasks (fst (snd (updateTask e i u w)))
                   = (tasks s)[k := merge_update e (tasks s ! k) u])
        \<and> (fst (saveTasks (take k (tasks s) @ drop (Suc k) (tasks s)) f) = False
           \<longrightarrow> success (fst (deleteTask i w)) = False
               \<and> tasks (fst (snd (deleteTask i w)))
                   = take k (tasks s) @ drop (Suc k) (tasks s)))"
proof (intro impI conjI)
  assume i: "initialize w = (s, f)"
  {
    assume "trim (title_c input) \<noteq> [] \<and> fst (saveTasks (tasks s @ [newTask e input]) f) = False"
    then have c: "fst (createTask e input w)
           = \<lparr>success = False, message = ''Error when creating task'', data = None,
              error = Some ''Failed to save task''\<rparr>
         \<and> tasks (fst (snd (createTask e input w))) = tasks s @ [newTask e input]"
      using createTask_save_fails [OF i] by blast
    from c show "success (fst (createTask e input w)) = False" by simp
    from c show "tasks (fst (snd (createTask e input w))) = tasks s @ [newTask e input]" by simp
  }
  assume "k < length (tasks s) \<and> taskId (tasks s ! k) = i \<and> (\<forall>j<k. taskId (tasks s ! j) \<noteq> i)"
  then have fi: "findIndex (\<lambda>t. taskId t = i) (tasks s) = int k"
    by (intro findIndex_first) auto
  {
    assume "(case title_u u of None \<Rightarrow> True | Some ttl \<Rightarrow> trim ttl \<noteq> [])
             \<and> fst (saveTasks ((tasks s)[k := merge_update e (tasks s ! k) u]) f) = False"
    then have c: "fst (updateTask e i u w)
           = \<lparr>success = False, message = ''Error when updating task'', data = None,
              error = Some ''Failed to save task''\<rparr>
         \<and> tasks (fst (snd (updateTask e i u w)))
           = (tasks s)[k := merge_update e (tasks s ! k) u]"
      using updateTask_save_fails [OF i fi] by blast
    from c show "success (fst (updateTask e i u w)) = False" by simp
    from c show "tasks (fst (snd (updateTask e i u w)))
           = (tasks s)[k := merge_update e (tasks s ! k) u]" by simp
  }
  {
    assume "fst (saveTasks (take k (tasks s) @ drop (Suc k) (tasks s)) f) = False"
    then have c: "fst (deleteTask i w)
           = \<lparr>success = False, message = ''Error when deleting task'', data = None,
              error = Some ''Failed to save task''\<rparr>
         \<and> tasks (fst (snd (deleteTask i w))) = take k (tasks s) @ drop (Suc k) (tasks s)"
      using deleteTask_save_fails [OF i fi] by blast
    from c show "success (fst (deleteTask i w)) = False" by simp
    from c show "tasks (fst (snd (deleteTask i w)))
                   = take k (tasks s) @ drop (Suc k) (tasks s)" by simp
  }
qed

text \<open>C4 on a loaded service with one task whose files cannot be written: creating a
  task, updating the status of task \<open>a\<close> and deleting task \<open>a\<close>.\<close>

theorem save_failure_no_rollback_witness:
  "initialize (loaded one_task, write_protected (disk one_task))
     = (loaded one_task, write_protected (disk one_task))
   \<and> trim (title_c sample_input) \<noteq> []
   \<and> fst (saveTasks (tasks (loaded one_task) @ [newTask env0 sample_input])
            (write_protected (disk one_task))) = False
   \<and> 0 < length (tasks (loaded one_task)) \<and> taskId (tasks (loaded one_task) ! 0) = ''a''
   \<and> success (fst (createTask env0 sample_input
                     (loaded one_task, write_protected (disk one_task)))) = False
   \<and> tasks (fst (snd (createTask env0 sample_input
                     (loaded one_task, write_protected (disk one_task)))))
       = tasks (loaded one_task) @ [newTask env0 sample_input]
   \<and> success (fst (updateTask env0 ''a'' (only_status COMPLETED)
                     (loaded one_task, write_protected (disk one_task)))) = False
   \<and> tasks (fst (snd (updateTask env0 ''a'' (only_status COMPLETED)
                     (loaded one_task, write_protected (disk one_task)))))
       = (tasks (loaded one_task))
           [0 := merge_update env0 (tasks (loaded one_task) ! 0) (only_status COMPLETED)]
   \<and> success (fst (deleteTask ''a'' (loaded one_task, write_protected (disk one_task)))) = False
   \<and> tasks (fst (snd (deleteTask ''a'' (loaded one_task, write_protected (disk one_task)))))
       = take 0 (tasks (loaded one_task)) @ drop (Suc 0) (tasks (loaded one_task))"
proof -
  have h1: "initialize (loaded one_task, write_protected (disk one_task))
     = (loaded one_task, write_protected (disk one_task))"
    by (simp add: initialize_def loaded_def)
  have h2: "trim (title_c sample_input) \<noteq> []"
    by (simp add: sample_input_def trim_def is_ws_def)
  have h3: "fst (saveTasks (tasks (loaded one_task) @ [newTask env0 sample_input])
            (write_protected (disk one_task))) = False"
    by (simp add: saveTasks_write_protected)
  have h4: "0 < length (tasks (loaded one_task)) \<and> taskId (tasks (loaded one_task) ! 0) = ''a''
            \<and> (\<forall>j<0. taskId (tasks (loaded one_task) ! j) \<noteq> ''a'')"
    by (simp add: loaded_def one_task_def sample_task_def)
  have h5: "case title_u (only_status COMPLETED) of None \<Rightarrow> True | Some ttl \<Rightarrow> trim ttl \<noteq> []"
    by (simp add: only_status_def)
  have h6: "fst (saveTasks ((tasks (loaded one_task))
           [0 := merge_update env0 (tasks (loaded one_task) ! 0) (only_status COMPLETED)])
            (write_protected (disk one_task))) = False"
    by (simp add: saveTasks_write_protected)
  have h7: "fst (saveTasks (take 0 (tasks (loaded one_task)) @ drop (Suc 0) (tasks (loaded one_task)))
            (write_protected (disk one_task))) = False"
    by (simp add: saveTasks_write_protected)
  show ?thesis
    using h1 h2 h3 h4 h5 h6 h7
      save_failure_no_rollback [where w = "(loaded one_task, write_protected (disk one_task))"
        and s = "loaded one_task" and f = "write_protected (disk one_task)"
        and input = sample_input and e = env0 and k = 0 and i = "''a''"
        and u = "only_status COMPLETED"]
    by blast
qed



text \<open>
  C6. \<open>getTaskStats\<close> succeeds, and over the collection \<open>tasks s\<close> it finds once
  \<open>initialize\<close> has run: \<open>total\<close> is the number of tasks; \<open>todo\<close>, \<open>inProgress\<close> and
  \<open>completed\<close> are the numbers of positions whose task has that status; \<open>overdue\<close> is
  the number of positions whose task has a due date with a time strictly before the
  current time and a status other than \<open>COMPLETED\<close>.
\<close>

theorem getTaskStats_counts:
  "initialize w = (s, f) \<longrightarrow>
     getTaskStats e w =
       (\<lparr>success = True, message = ''Successfully get task stats'',
         data = Some
           \<lparr>total = length (tasks s),
            todo = card {k. k < length (tasks s) \<and> status (tasks s ! k) = Some TODO},
            inProgress =
              card {k. k < length (tasks s) \<and> status (tasks s ! k) = Some IN_PROGRESS},
            completed = card {k. k < length (tasks s) \<and> status (tasks s ! k) = Some COMPLETED},
            overdue = card {k. k < length (tasks s)
                             \<and> ((\<exists>x. dueDate (tasks s ! k) = Some (Date x) \<and> x < now e)
                                  \<and> status (tasks s ! k) \<noteq> Some COMPLETED)}\<rparr>,
         error = None\<rparr>, s, f)"
proof
  assume i: "initialize w = (s, f)"
  have ov: "isTaskOverdue e = (\<lambda>t. (\<exists>x. dueDate t = Some (Date x) \<and> x < now e)
                                     \<and> status t \<noteq> Some COMPLETED)"
    by (rule ext) (rule isTaskOverdue_iff)
  show "getTaskStats e w =
       (\<lparr>success = True, message = ''Successfully get task stats'',
         data = Some
           \<lparr>total = length (tasks s),
            todo = card {k. k < length (tasks s) \<and> status (tasks s ! k) = Some TODO},
            inProgress =
              card {k. k < length (tasks s) \<and> status (tasks s ! k) = Some IN_PROGRESS},
            completed = card {k. k < length (tasks s) \<and> status (tasks s ! k) = Some COMPLETED},
            overdue = card {k. k < length (tasks s)
                             \<and> ((\<exists>x. dueDate (tasks s ! k) = Some (Date x) \<and> x < now e)
                                  \<and> status (tasks s ! k) \<noteq> Some COMPLETED)}\<rparr>,
         error = None\<rparr>, s, f)"
    unfolding getTaskStats_def i ov by (simp add: Let_def length_filter_conv_card)
qed

text \<open>C6 on three tasks, one \<open>TODO\<close>, one \<open>IN_PROGRESS\<close> with a past due date and one
  \<open>COMPLETED\<close> with a past due date: the counts are 3, 1, 1, 1 and 1 overdue.\<close>

theorem getTaskStats_counts_witness:
  "initialize (loaded three_tasks, disk three_tasks) = (loaded three_tasks, disk three_tasks)
   \<and> data (fst (getTaskStats env0 (loaded three_tasks, disk three_tasks)))
       = Some \<lparr>total = 3, todo = 1, inProgress = 1, completed = 1, overdue = 1\<rparr>
   \<and> getTaskStats env0 (loaded three_tasks, disk three_tasks) =
       (\<lparr>success = True, message = ''Successfully get task stats'',
         data = Some
           \<lparr>total = length (tasks (loaded three_tasks)),
            todo = card {k. k < length (tasks (loaded three_tasks))
                          \<and> status (tasks (loaded three_tasks) ! k) = Some TODO},
            inProgress = card {k. k < length (tasks (loaded three_tasks))
                          \<and> status (tasks (loaded three_tasks) ! k) = Some IN_PROGRESS},
            completed = card {k. k < length (tasks (loaded three_tasks))
                          \<and> status (tasks (loaded three_tasks) ! k) = Some COMPLETED},
            overdue = card {k. k < length (tasks (loaded three_tasks))
                             \<and> ((\<exists>x. dueDate (tasks (loaded three_tasks) ! k) = Some (Date x)
                                      \<and> x < now env0)
                                  \<and> status (tasks (loaded three_tasks) ! k)
                                        \<noteq> Some COMPLETED)}\<rparr>,
         error = None\<rparr>, loaded three_tasks, disk three_tasks)"
proof -
  have i: "initialize (loaded three_tasks, disk three_tasks)
             = (loaded three_tasks, disk three_tasks)"
    by (simp add: initialize_def loaded_def)
  have v: "data (fst (getTaskStats env0 (loaded three_tasks, disk three_tasks)))
       = Some \<lparr>total = 3, todo = 1, inProgress = 1, completed = 1, overdue = 1\<rparr>"
    by (simp add: getTaskStats_def initialize_def loaded_def three_tasks_def sample_task_def
        isTaskOverdue_def env0_def Let_def)
  show ?thesis
    using i v getTaskStats_counts [of "(loaded three_tasks, disk three_tasks)"
        "loaded three_tasks" "disk three_tasks" env0]
    by blast
qed

text \<open>
  C7. \<open>createTask\<close> with a title that trims to the empty string fails with
  \<open>INVALID_TITLE\<close>, and the service and the files are as \<open>initialize\<close> leaves them: no
  task is appended and nothing is saved. On a loaded service they are unchanged.
\<close>

theorem createTask_blank_title:
  "trim (title_c input) = [] \<longrightarrow>
     fst (createTask e input w)
       = \<lparr>success = False, message = ''Task title. cannot be empty'', data = None,
          error = Some ''INVALID_TITLE''\<rparr>
     \<and> snd (createTask e input w) = initialize w
     \<and> (isLoaded (fst w) \<longrightarrow> snd (createTask e input w) = w)"
  by (cases w) (auto simp: createTask_def createTask_try_def catch_error_def initialize_def
      split: prod.splits)

text \<open>C7 on a title of three spaces and a loaded service with one task.\<close>

theorem createTask_blank_title_witness:
  "trim (title_c \<lparr>title_c = ''   '', description_c = None, dueDate_c = None\<rparr>) = []
   \<and> isLoaded (fst (loaded one_task, disk one_task))
   \<and> fst (createTask env0 \<lparr>title_c = ''   '', description_c = None, dueDate_c = None\<rparr>
            (loaded one_task, disk one_task))
       = \<lparr>success = False, message = ''Task title. cannot be empty'', data = None,
          error = Some ''INVALID_TITLE''\<rparr>
   \<and> snd (createTask env0 \<lparr>title_c = ''   '', description_c = None, dueDate_c = None\<rparr>
            (loaded one_task, disk one_task))
       = (loaded one_task, disk one_task)"
proof -
  have blank: "trim (title_c \<lparr>title_c = ''   '', description_c = None, dueDate_c = None\<rparr>) = []"
    by (simp add: trim_def is_ws_def)
  have ld: "isLoaded (fst (loaded one_task, disk one_task))"
    by (simp add: loaded_def)
  show ?thesis
    using blank ld
      createTask_blank_title [of "\<lparr>title_c = ''   '', description_c = None, dueDate_c = None\<rparr>"
        env0 "(loaded one_task, disk one_task)"]
    by blast
qed




text \<open>
  C9, as amended. For tasks whose dates are all valid, when \<open>saveTasks\<close> returns
  \<open>true\<close> and the file can be read, \<open>loadTasks\<close> after it returns the same tasks, in
  the same order, with equal fields.
\<close>

theorem save_load_roundtrip:
  "(\<forall>t\<in>set ts. valid_dates t) \<and> fst (saveTasks ts f) = True \<and> ReadFile \<notin> failing f
   \<longrightarrow> fst (loadTasks (snd (saveTasks ts f))) = ts"
proof
  assume a: "(\<forall>t\<in>set ts. valid_dates t) \<and> fst (saveTasks ts f) = True \<and> ReadFile \<notin> failing f"
  then have sv: "fst (saveTasks ts f) = True" by simp
  from saveTasks_True [OF sv] a
  have "fst (loadTasks (snd (saveTasks ts f))) = map hydrate (map stringify_task ts)"
    by (intro loadTasks_reads) (simp_all add: JSON_stringify_def)
  with a show "fst (loadTasks (snd (saveTasks ts f))) = ts"
    using map_hydrate_stringify [of ts] by simp
qed

text \<open>C9 as amended, on three tasks saved over an empty tasks file.\<close>

theorem save_load_roundtrip_witness:
  "list_all valid_dates three_tasks \<and> fst (saveTasks three_tasks (disk [])) = True
   \<and> ReadFile \<notin> failing (disk [])
   \<and> fst (loadTasks (snd (saveTasks three_tasks (disk [])))) = three_tasks"
proof -
  have h0: "list_all valid_dates three_tasks"
    by (simp add: three_tasks_def sample_task_def valid_dates_def)
  then have h1: "\<forall>t\<in>set three_tasks. valid_dates t"
    by (simp add: list_all_iff)
  have h2: "fst (saveTasks three_tasks (disk [])) = True"
    by (simp add: saveTasks_disk)
  have h3: "ReadFile \<notin> failing (disk [])"
    by (simp add: disk_def)
  show ?thesis
    using h0 h1 h2 h3 save_load_roundtrip [of three_tasks "disk []"] by blast
qed

text \<open>
  C9 as stated fails for a task whose due date is an Invalid Date: the save succeeds,
  and the load returns the task with no due date.
\<close>

theorem save_load_roundtrip_counterexample:
  "fst (saveTasks [sample_task ''a'' TODO (Some InvalidDate)] (disk [])) = True
   \<and> fst (loadTasks (snd (saveTasks [sample_task ''a'' TODO (Some InvalidDate)] (disk []))))
       = [sample_task ''a'' TODO None]
   \<and> fst (loadTasks (snd (saveTasks [sample_task ''a'' TODO (Some InvalidDate)] (disk []))))
       \<noteq> [sample_task ''a'' TODO (Some InvalidDate)]"
  by (simp add: saveTasks_disk loadTasks_disk stringify_task_def hydrate_def toJSON_def
      new_Date_def sample_task_def)

text \<open>
  C10. A loaded service with the one task \<open>a\<close>, of status \<open>TODO\<close>. The interactive
  update of \<open>a\<close> with a new title and the status left as it is passes a patch whose
  \<open>status\<close> holds \<open>undefined\<close>; \<open>updateTask\<close> succeeds and stores the task with status
  \<open>undefined\<close>, in memory and in the file. \<open>getTaskStats\<close> then reports \<open>total\<close> 1 and
  \<open>todo\<close>, \<open>inProgress\<close> and \<open>completed\<close> 0: the total is not their sum.
\<close>

theorem getTaskStats_total_exceeds_sum:
  "status_u (interactive_updateData (sample_task ''a'' TODO None) sample_answers) = Undefined
   \<and> map status (tasks (fst (handleUpdateTask_interactive env0 ''a'' sample_answers
                                (loaded one_task, disk one_task)))) = [None]
   \<and> map status (fst (loadTasks (snd (handleUpdateTask_interactive env0 ''a'' sample_answers
                                (loaded one_task, disk one_task))))) = [None]
   \<and> success (fst (getTaskStats env0 (handleUpdateTask_interactive env0 ''a'' sample_answers
                                (loaded one_task, disk one_task)))) = True
   \<and> data (fst (getTaskStats env0 (handleUpdateTask_interactive env0 ''a'' sample_answers
                                (loaded one_task, disk one_task))))
       = Some \<lparr>total = 1, todo = 0, inProgress = 0, completed = 0, overdue = 0\<rparr>"
proof -
  have u: "interactive_updateData (sample_task ''a'' TODO None) sample_answers
             = \<lparr>title_u = Some ''Write the report'', description_u = None,
                status_u = Undefined, dueDate_u = Missing\<rparr>"
    by (simp add: interactive_updateData_def sample_task_def sample_answers_def)
  have h: "handleUpdateTask_interactive env0 ''a'' sample_answers (loaded one_task, disk one_task)
             = (loaded [(sample_task ''a'' TODO None)
                          \<lparr>title := ''Write the report'', status := None,
                            updatedAt := Date (now env0)\<rparr>],
                disk [(sample_task ''a'' TODO None)
                          \<lparr>title := ''Write the report'', status := None,
                            updatedAt := Date (now env0)\<rparr>])"
    unfolding handleUpdateTask_interactive_def
    by (simp add: getTaskById_def initialize_def loaded_def one_task_def u
        updateTask_def updateTask_try_def catch_error_def merge_update_def saveTasks_disk
        Let_def trim_def is_ws_def)
       (simp add: sample_task_def)
  have st: "getTaskStats env0
              (loaded [(sample_task ''a'' TODO None)
                          \<lparr>title := ''Write the report'', status := None,
                            updatedAt := Date (now env0)\<rparr>],
               disk [(sample_task ''a'' TODO None)
                          \<lparr>title := ''Write the report'', status := None,
                            updatedAt := Date (now env0)\<rparr>])
            = (\<lparr>success = True, message = ''Successfully get task stats'',
                data = Some \<lparr>total = 1, todo = 0, inProgress = 0, completed = 0, overdue = 0\<rparr>,
                error = None\<rparr>,
               loaded [(sample_task ''a'' TODO None)
                          \<lparr>title := ''Write the report'', status := None,
                            updatedAt := Date (now env0)\<rparr>],
               disk [(sample_task ''a'' TODO None)
                          \<lparr>title := ''Write the report'', status := None,
                            updatedAt := Date (now env0)\<rparr>])"
    by (simp add: getTaskStats_def initialize_def loaded_def Let_def isTaskOverdue_def
        sample_task_def)
  have ld: "map status (fst (loadTasks (disk [(sample_task ''a'' TODO None)
                          \<lparr>title := ''Write the report'', status := None,
                            updatedAt := Date (now env0)\<rparr>]))) = [None]"
    by (simp add: loadTasks_disk stringify_task_def hydrate_def)
  have mem: "map status (tasks (loaded [(sample_task ''a'' TODO None)
                          \<lparr>title := ''Write the report'', status := None,
                            updatedAt := Date (now env0)\<rparr>])) = [None]"
    by (simp add: loaded_def)
  have su: "status_u (interactive_updateData (sample_task ''a'' TODO None) sample_answers)
              = Undefined"
    by (simp add: u)
  show ?thesis
    unfolding h st using su ld mem by simp
qed

end
